theory Spec2Isabelle
  imports Complex_Main
begin

section \<open>The Python fragment the notebooks are written in\<close>

text \<open>
  Both notebooks are straight-line scripts: imports, assignments, calls into the
  quantum-computing library, a few list comprehensions over integers, two \<open>if\<close>
  statements and \<open>print\<close>. There is no \<open>try\<close>, no \<open>raise\<close> and no function
  definition in either.

  A run is modelled in a monad over the state of the Jupyter kernel. The kernel holds the
  state of the library's world (random generator, loaded modules, objects the library
  owns) and what has been written to standard output: the strings passed to its
  \<open>write\<close>, in order.
\<close>

datatype 'e exn = LibraryError 'e | ZeroDivisionError | KeyError string

record 'w kernel =
  world :: 'w
  stdout :: "string list"

type_synonym ('e, 'w, 'a) py = "'w kernel \<Rightarrow> ('e exn + 'a) \<times> 'w kernel"

text \<open>A call into the library: it reads and changes the library's world, and returns or raises.\<close>

type_synonym ('e, 'w, 'a) libcall = "'w \<Rightarrow> ('e + 'a) \<times> 'w"

definition boot :: "'w \<Rightarrow> 'w kernel" where
  "boot w = \<lparr>world = w, stdout = []\<rparr>"

definition return_py :: "'a \<Rightarrow> ('e, 'w, 'a) py" where
  "return_py a = (\<lambda>s. (Inr a, s))"

definition raise_py :: "'e exn \<Rightarrow> ('e, 'w, 'a) py" where
  "raise_py x = (\<lambda>s. (Inl x, s))"

text \<open>Sequencing of statements: an exception ends the run where it is raised.\<close>

definition bind_py :: "('e, 'w, 'a) py \<Rightarrow> ('a \<Rightarrow> ('e, 'w, 'b) py) \<Rightarrow> ('e, 'w, 'b) py" where
  "bind_py m f = (\<lambda>s. case m s of (Inl x, s') \<Rightarrow> (Inl x, s') | (Inr a, s') \<Rightarrow> f a s')"

text \<open>A result computed without the library, which may be a Python exception.\<close>

definition lift_py :: "'e exn + 'a \<Rightarrow> ('e, 'w, 'a) py" where
  "lift_py r = (\<lambda>s. (r, s))"

text \<open>
  A call into the library from the notebook: the library's world moves on, and an exception
  of the library becomes the exception of the statement.
\<close>

definition lib :: "('e, 'w, 'a) libcall \<Rightarrow> ('e, 'w, 'a) py" where
  "lib c = (\<lambda>s. case c (world s) of
      (Inl e, w') \<Rightarrow> (Inl (LibraryError e), s\<lparr>world := w'\<rparr>)
    | (Inr a, w') \<Rightarrow> (Inr a, s\<lparr>world := w'\<rparr>))"

text \<open>\<open>sys.stdout.write(text)\<close>.\<close>

definition write_stdout :: "string \<Rightarrow> ('e, 'w, unit) py" where
  "write_stdout text = (\<lambda>s. (Inr (), s\<lparr>stdout := stdout s @ [text]\<rparr>))"

definition nl :: string where
  "nl = [CHR 0x0A]"

text \<open>\<open>print(text)\<close> for a string: the string is written, then the end of the line.\<close>

definition print_str :: "string \<Rightarrow> ('e, 'w, unit) py" where
  "print_str text = bind_py (write_stdout text) (\<lambda>_. write_stdout nl)"

text \<open>\<open>d[k]\<close> on a dict: \<open>KeyError\<close> when the key is missing.\<close>

definition subscript :: "(string \<rightharpoonup> 'o) \<Rightarrow> string \<Rightarrow> ('e, 'w, 'o) py" where
  "subscript d k = (case d k of None \<Rightarrow> raise_py (KeyError k) | Some v \<Rightarrow> return_py v)"

text \<open>\<open>x % n\<close> on Python's unbounded integers: the result has the sign of \<open>n\<close>.\<close>

definition py_mod :: "int \<Rightarrow> int \<Rightarrow> 'e exn + int" where
  "py_mod x n = (if n = 0 then Inl ZeroDivisionError else Inr (x mod n))"

text \<open>A list comprehension \<open>[f(x) for x in xs]\<close> whose element expression may raise.\<close>

primrec comprehension :: "('a \<Rightarrow> 'x + 'b) \<Rightarrow> 'a list \<Rightarrow> 'x + 'b list" where
  "comprehension f [] = Inr []"
| "comprehension f (x # xs) =
     (case f x of Inl e \<Rightarrow> Inl e
      | Inr y \<Rightarrow> (case comprehension f xs of Inl e \<Rightarrow> Inl e | Inr ys \<Rightarrow> Inr (y # ys)))"

text \<open>\<open>'{}'.format(i)\<close> for an integer: its decimal digits, with a minus sign when negative.\<close>

fun digits :: "nat \<Rightarrow> string" where
  "digits n = (if n < 10 then [char_of (48 + n)] else digits (n div 10) @ [char_of (48 + n mod 10)])"

declare digits.simps [simp del]

definition str_int :: "int \<Rightarrow> string" where
  "str_int i = (if i < 0 then CHR ''-'' # digits (nat (- i)) else digits (nat i))"

section \<open>The library, as the notebooks use it\<close>

text \<open>
  The library is not part of the repository: every entry point the notebooks call is a
  parameter. Objects of the library (graphs, operators, solvers, floating-point numbers,
  arrays) are values of one opaque type \<open>'o\<close>; its exceptions are values of \<open>'e\<close>. A
  result dictionary is a map from keys to objects, and the molecule returned by the
  chemistry driver is a record of the attributes the notebook reads.
\<close>

record 'o molecule =
  one_body_integrals :: 'o
  two_body_integrals :: 'o
  nuclear_repulsion_energy :: 'o
  hf_energy :: 'o
  num_alpha :: int
  num_beta :: int
  num_orbitals :: int

record ('e, 'o, 'w) library =
  \<comment> \<open>\<open>import module\<close> and \<open>from module import names\<close>\<close>
  import_from :: "string \<Rightarrow> string list \<Rightarrow> ('e, 'w, unit) libcall"
  \<comment> \<open>operations on objects the library returned\<close>
  getitem :: "'o \<Rightarrow> int \<Rightarrow> ('e, 'w, 'o) libcall"
  binop :: "string \<Rightarrow> 'o \<Rightarrow> 'o \<Rightarrow> ('e, 'w, 'o) libcall"
  real_part :: "'o \<Rightarrow> ('e, 'w, 'o) libcall"
  num_qubits :: "'o \<Rightarrow> ('e, 'w, int) libcall"
  str_of :: "'o \<Rightarrow> ('e, 'w, string) libcall"
  format_of :: "'o \<Rightarrow> string \<Rightarrow> ('e, 'w, string) libcall"
  float_of :: "rat \<Rightarrow> 'o"
  \<comment> \<open>numpy\<close>
  random_seed :: "int \<Rightarrow> ('e, 'w, unit) libcall"
  \<comment> \<open>qiskit.aqua.translators.ising.maxcut\<close>
  parse_gset_format :: "string \<Rightarrow> ('e, 'w, 'o) libcall"
  get_maxcut_qubitops :: "'o \<Rightarrow> ('e, 'w, 'o \<times> 'o) libcall"
  random_graph :: "int \<Rightarrow> rat \<Rightarrow> int \<Rightarrow> ('e, 'w, 'o) libcall"
  sample_most_likely :: "'o \<Rightarrow> ('e, 'w, 'o) libcall"
  get_graph_solution :: "'o \<Rightarrow> ('e, 'w, 'o) libcall"
  \<comment> \<open>qiskit.aqua algorithms and components, qiskit.Aer\<close>
  ExactEigensolver :: "'o \<Rightarrow> int option \<Rightarrow> ('e, 'w, 'o) libcall"
  ExactEigensolver_run :: "'o \<Rightarrow> ('e, 'w, string \<rightharpoonup> 'o) libcall"
  L_BFGS_B :: "('e, 'w, 'o) libcall"
  COBYLA :: "int \<Rightarrow> ('e, 'w, 'o) libcall"
  RY :: "int \<Rightarrow> int \<Rightarrow> string \<Rightarrow> ('e, 'w, 'o) libcall"
  VQE :: "'o \<Rightarrow> 'o \<Rightarrow> 'o \<Rightarrow> string \<Rightarrow> bool option \<Rightarrow> ('e, 'w, 'o) libcall"
  VQE_run :: "'o \<Rightarrow> 'o \<Rightarrow> ('e, 'w, string \<rightharpoonup> 'o) libcall"
  get_backend :: "string \<Rightarrow> ('e, 'w, 'o) libcall"
  QuantumInstance :: "'o \<Rightarrow> ('e, 'w, 'o) libcall"
  \<comment> \<open>qiskit.chemistry\<close>
  ANGSTROM :: 'o
  PySCFDriver :: "string \<Rightarrow> 'o \<Rightarrow> int \<Rightarrow> int \<Rightarrow> string \<Rightarrow> ('e, 'w, 'o) libcall"
  PySCFDriver_run :: "'o \<Rightarrow> ('e, 'w, 'o molecule) libcall"
  FermionicOperator :: "'o \<Rightarrow> 'o \<Rightarrow> ('e, 'w, 'o) libcall"
  fermion_mode_freezing :: "'o \<Rightarrow> int list \<Rightarrow> ('e, 'w, 'o \<times> 'o) libcall"
  fermion_mode_elimination :: "'o \<Rightarrow> int list \<Rightarrow> ('e, 'w, 'o) libcall"
  mapping :: "'o \<Rightarrow> string \<Rightarrow> rat \<Rightarrow> ('e, 'w, 'o) libcall"
  two_qubit_reduced_operator :: "'o \<Rightarrow> int \<Rightarrow> ('e, 'w, 'o) libcall"
  chop :: "'o \<Rightarrow> rat \<Rightarrow> ('e, 'w, unit) libcall"
  HartreeFock :: "int \<Rightarrow> int \<Rightarrow> int \<Rightarrow> string \<Rightarrow> bool \<Rightarrow> ('e, 'w, 'o) libcall"
  UCCSD :: "int \<Rightarrow> int \<Rightarrow> int \<Rightarrow> int \<Rightarrow> int list \<Rightarrow> int list \<Rightarrow> 'o \<Rightarrow> string \<Rightarrow> bool \<Rightarrow> int
              \<Rightarrow> ('e, 'w, 'o) libcall"

text \<open>
  \<open>print(label, v)\<close>: \<open>print\<close> writes its arguments one after the other, so the label
  and the separator are on standard output before the library renders \<open>v\<close>.
\<close>

definition print_py :: "('e, 'o, 'w) library \<Rightarrow> string \<Rightarrow> 'o \<Rightarrow> ('e, 'w, unit) py" where
  "print_py L label v =
     bind_py (write_stdout label) (\<lambda>_.
     bind_py (write_stdout '' '') (\<lambda>_.
     bind_py (lib (str_of L v)) (\<lambda>s.
     print_str s)))"

text \<open>
  \<open>print(prefix + '{:spec}'.format(v))\<close>: the argument is formatted by the library before
  \<open>print\<close> is called.
\<close>

definition print_format :: "('e, 'o, 'w) library \<Rightarrow> string \<Rightarrow> string \<Rightarrow> 'o \<Rightarrow> ('e, 'w, unit) py" where
  "print_format L prefix spec v =
     bind_py (lib (format_of L v spec)) (\<lambda>s. print_str (prefix @ s))"

section \<open>The Max-Cut notebook\<close>

text \<open>Cell 1: the imports.\<close>

definition maxcut_cell1 :: "('e, 'o, 'w) library \<Rightarrow> ('e, 'w, unit) py" where
  "maxcut_cell1 L =
     bind_py (lib (import_from L ''numpy'' [])) (\<lambda>_.
     bind_py (lib (import_from L ''qiskit.aqua'' [''Operator''])) (\<lambda>_.
     bind_py (lib (import_from L ''qiskit.aqua.components.optimizers'' [''L_BFGS_B''])) (\<lambda>_.
     bind_py (lib (import_from L ''qiskit.aqua.components.variational_forms'' [''RY''])) (\<lambda>_.
     bind_py (lib (import_from L ''qiskit.aqua.algorithms'' [''VQE''])) (\<lambda>_.
     bind_py (lib (import_from L ''qiskit.aqua.algorithms'' [''ExactEigensolver''])) (\<lambda>_.
     bind_py (lib (import_from L ''qiskit.aqua.translators.ising'' [''maxcut''])) (\<lambda>_.
     lib (import_from L ''qiskit'' [''Aer'']))))))))"

text \<open>Cell 2: the sample graph is parsed and mapped to a qubit operator and an offset.\<close>

definition maxcut_cell2 :: "('e, 'o, 'w) library \<Rightarrow> ('e, 'w, 'o \<times> 'o \<times> 'o) py" where
  "maxcut_cell2 L =
     bind_py (lib (parse_gset_format L ''sample.maxcut'')) (\<lambda>w.
     bind_py (lib (get_maxcut_qubitops L w)) (\<lambda>(qubitOp, offset).
     return_py (w, qubitOp, offset)))"

text \<open>
  Cell 3: under \<open>if True:\<close> the generator is seeded, a random graph on four nodes replaces
  the parsed one, and operator and offset are derived again; then the graph is printed.
\<close>

definition maxcut_cell3 :: "('e, 'o, 'w) library \<Rightarrow> 'o \<times> 'o \<times> 'o \<Rightarrow> ('e, 'w, 'o \<times> 'o \<times> 'o) py" where
  "maxcut_cell3 L vars =
     bind_py
       (if True then
          bind_py (lib (random_seed L 8123179)) (\<lambda>_.
          let n = 4 in
          bind_py (lib (random_graph L n (1 / 2) 10)) (\<lambda>w.
          bind_py (lib (get_maxcut_qubitops L w)) (\<lambda>(qubitOp, offset).
          return_py (w, qubitOp, offset))))
        else return_py vars) (\<lambda>(w, qubitOp, offset).
     bind_py (bind_py (lib (str_of L w)) print_str) (\<lambda>_.
     return_py (w, qubitOp, offset)))"

text \<open>Cell 4: the exact eigensolver, decoding of its first eigenvector, and three prints.\<close>

definition maxcut_cell4 :: "('e, 'o, 'w) library \<Rightarrow> 'o \<Rightarrow> 'o \<Rightarrow> ('e, 'w, unit) py" where
  "maxcut_cell4 L qubitOp offset =
     bind_py (lib (ExactEigensolver L qubitOp None)) (\<lambda>ee.
     bind_py (lib (ExactEigensolver_run L ee)) (\<lambda>result.
     bind_py (subscript result ''eigvecs'') (\<lambda>eigvecs.
     bind_py (lib (getitem L eigvecs 0)) (\<lambda>eigvec.
     bind_py (lib (sample_most_likely L eigvec)) (\<lambda>x.
     bind_py (subscript result ''energy'') (\<lambda>energy.
     bind_py (print_py L ''energy:'' energy) (\<lambda>_.
     bind_py (subscript result ''energy'') (\<lambda>energy.
     bind_py (lib (binop L ''+'' energy offset)) (\<lambda>objective.
     bind_py (print_py L ''maxcut objective:'' objective) (\<lambda>_.
     bind_py (lib (get_graph_solution L x)) (\<lambda>solution.
     print_py L ''solution:'' solution)))))))))))"

text \<open>Cell 5: the variational solver on the same operator, decoding, and four prints.\<close>

definition maxcut_cell5 :: "('e, 'o, 'w) library \<Rightarrow> 'o \<Rightarrow> 'o \<Rightarrow> ('e, 'w, unit) py" where
  "maxcut_cell5 L qubitOp offset =
     bind_py (lib (L_BFGS_B L)) (\<lambda>l_bfgs_b.
     bind_py (lib (num_qubits L qubitOp)) (\<lambda>n.
     bind_py (lib (RY L n 5 ''linear'')) (\<lambda>ry.
     bind_py (lib (VQE L qubitOp ry l_bfgs_b ''grouped_paulis'' (Some True))) (\<lambda>vqe.
     bind_py (lib (get_backend L ''statevector_simulator'')) (\<lambda>backend.
     bind_py (lib (VQE_run L vqe backend)) (\<lambda>result.
     bind_py (subscript result ''eigvecs'') (\<lambda>eigvecs.
     bind_py (lib (getitem L eigvecs 0)) (\<lambda>eigvec.
     bind_py (lib (sample_most_likely L eigvec)) (\<lambda>x.
     bind_py (subscript result ''energy'') (\<lambda>energy.
     bind_py (print_py L ''energy:'' energy) (\<lambda>_.
     bind_py (subscript result ''eval_time'') (\<lambda>eval_time.
     bind_py (print_py L ''time:'' eval_time) (\<lambda>_.
     bind_py (subscript result ''energy'') (\<lambda>energy.
     bind_py (lib (binop L ''+'' energy offset)) (\<lambda>objective.
     bind_py (print_py L ''maxcut objective:'' objective) (\<lambda>_.
     bind_py (lib (get_graph_solution L x)) (\<lambda>solution.
     print_py L ''solution:'' solution)))))))))))))))))"

text \<open>The notebook: its code cells in order.\<close>

definition maxcut_notebook :: "('e, 'o, 'w) library \<Rightarrow> ('e, 'w, unit) py" where
  "maxcut_notebook L =
     bind_py (maxcut_cell1 L) (\<lambda>_.
     bind_py (maxcut_cell2 L) (\<lambda>vars.
     bind_py (maxcut_cell3 L vars) (\<lambda>(w, qubitOp, offset).
     bind_py (maxcut_cell4 L qubitOp offset) (\<lambda>_.
     maxcut_cell5 L qubitOp offset))))"

section \<open>The chemistry notebook\<close>

text \<open>Cell 1: the imports.\<close>

definition chemistry_cell1 :: "('e, 'o, 'w) library \<Rightarrow> ('e, 'w, unit) py" where
  "chemistry_cell1 L =
     bind_py (lib (import_from L ''numpy'' [])) (\<lambda>_.
     bind_py (lib (import_from L ''qiskit'' [''Aer''])) (\<lambda>_.
     bind_py (lib (import_from L ''qiskit.aqua'' [''Operator'', ''QuantumInstance''])) (\<lambda>_.
     bind_py (lib (import_from L ''qiskit.aqua.algorithms'' [''VQE'', ''ExactEigensolver''])) (\<lambda>_.
     bind_py (lib (import_from L ''qiskit.aqua.components.optimizers'' [''COBYLA''])) (\<lambda>_.
     bind_py (lib (import_from L ''qiskit.chemistry'' [''FermionicOperator''])) (\<lambda>_.
     bind_py (lib (import_from L ''qiskit.chemistry.drivers'' [''PySCFDriver'', ''UnitsType''])) (\<lambda>_.
     bind_py (lib (import_from L
       ''qiskit.chemistry.aqua_extensions.components.variational_forms'' [''UCCSD''])) (\<lambda>_.
     lib (import_from L
       ''qiskit.chemistry.aqua_extensions.components.initial_states'' [''HartreeFock''])))))))))"

text \<open>Cell 2: the driver is configured for LiH and run; it returns the molecule.\<close>

definition chemistry_cell2 :: "('e, 'o, 'w) library \<Rightarrow> ('e, 'w, 'o molecule) py" where
  "chemistry_cell2 L =
     bind_py (lib (PySCFDriver L ''Li .0 .0 .0; H .0 .0 1.6'' (ANGSTROM L) 0 0 ''sto3g'')) (\<lambda>driver.
     lib (PySCFDriver_run L driver))"

text \<open>
  Cell 3: the orbitals to freeze and to remove, the mapping, the integrals, and the two
  counters \<open>num_particles\<close> and \<open>num_spin_orbitals\<close>; three prints.
\<close>

record 'o chem_vars =
  freeze_list0 :: "int list"
  remove_list0 :: "int list"
  map_type :: string
  h1 :: 'o
  h2 :: 'o
  nuclear_repulsion_energy0 :: 'o
  num_particles0 :: int
  num_spin_orbitals0 :: int

definition chemistry_cell3 :: "('e, 'o, 'w) library \<Rightarrow> 'o molecule \<Rightarrow> ('e, 'w, 'o chem_vars) py" where
  "chemistry_cell3 L molecule =
    (let vars = \<lparr>freeze_list0 = [0], remove_list0 = [- 3, - 2], map_type = ''parity'',
                 h1 = one_body_integrals molecule, h2 = two_body_integrals molecule,
                 nuclear_repulsion_energy0 = nuclear_repulsion_energy molecule,
                 num_particles0 = num_alpha molecule + num_beta molecule,
                 num_spin_orbitals0 = num_orbitals molecule * 2\<rparr> in
     bind_py (lib (binop L ''-'' (hf_energy molecule) (nuclear_repulsion_energy molecule))) (\<lambda>hf.
     bind_py (print_format L ''HF energy: '' [] hf) (\<lambda>_.
     bind_py (print_str (''# of electrons: '' @ str_int (num_particles0 vars))) (\<lambda>_.
     bind_py (print_str (''# of spin orbitals: '' @ str_int (num_spin_orbitals0 vars))) (\<lambda>_.
     return_py vars)))))"

text \<open>
  Cell 4, first half: the index lists. Negative indices are reduced modulo the number of
  orbitals, the indices to remove are shifted down by the number of frozen orbitals, and
  both lists are then extended by their copies in the second spin sector.
\<close>

definition prepare_idx :: "int \<Rightarrow> int list \<Rightarrow> int list \<Rightarrow> 'e exn + int list \<times> int list" where
  "prepare_idx n freeze_list remove_list =
    (case comprehension (\<lambda>x. py_mod x n) remove_list of Inl e \<Rightarrow> Inl e | Inr remove_list \<Rightarrow>
    (case comprehension (\<lambda>x. py_mod x n) freeze_list of Inl e \<Rightarrow> Inl e | Inr freeze_list \<Rightarrow>
    (let remove_list = map (\<lambda>x. x - int (length freeze_list)) remove_list;
         remove_list = remove_list @ map (\<lambda>x. x + n - int (length freeze_list)) remove_list;
         freeze_list = freeze_list @ map (\<lambda>x. x + n) freeze_list
     in Inr (freeze_list, remove_list))))"

text \<open>
  Cell 4, second half: the fermionic operator is built, the frozen orbitals are frozen and
  the removed ones eliminated (each step lowering the counters), and the result is mapped
  to a qubit operator, reduced by two qubits under the parity mapping, and chopped.
\<close>

record 'o reduced =
  freeze_list :: "int list"
  remove_list :: "int list"
  energy_shift :: 'o
  qubit_reduction :: bool
  num_spin_orbitals :: int
  num_particles :: int
  qubitOp :: 'o

definition chemistry_cell4 ::
  "('e, 'o, 'w) library \<Rightarrow> 'o molecule \<Rightarrow> 'o chem_vars \<Rightarrow> ('e, 'w, 'o reduced) py" where
  "chemistry_cell4 L molecule vars =
     bind_py (lift_py (prepare_idx (num_orbitals molecule) (freeze_list0 vars) (remove_list0 vars)))
       (\<lambda>(freeze_list, remove_list).
     let energy_shift = float_of L 0;
         qubit_reduction = (if map_type vars = ''parity'' then True else False) in
     bind_py (lib (FermionicOperator L (h1 vars) (h2 vars))) (\<lambda>ferOp.
     bind_py
       (if length freeze_list > 0 then
          bind_py (lib (fermion_mode_freezing L ferOp freeze_list))
            (\<lambda>(ferOp, energy_shift).
          return_py (ferOp, energy_shift,
                     num_spin_orbitals0 vars - int (length freeze_list),
                     num_particles0 vars - int (length freeze_list)))
        else return_py (ferOp, energy_shift, num_spin_orbitals0 vars, num_particles0 vars))
       (\<lambda>(ferOp, energy_shift, num_spin_orbitals, num_particles).
     bind_py
       (if length remove_list > 0 then
          bind_py (lib (fermion_mode_elimination L ferOp remove_list))
            (\<lambda>ferOp.
          return_py (ferOp, num_spin_orbitals - int (length remove_list)))
        else return_py (ferOp, num_spin_orbitals))
       (\<lambda>(ferOp, num_spin_orbitals).
     bind_py (lib (mapping L ferOp (map_type vars) (1 / 10 ^ 8))) (\<lambda>qubitOp.
     bind_py
       (if qubit_reduction
        then lib (two_qubit_reduced_operator L qubitOp num_particles)
        else return_py qubitOp) (\<lambda>qubitOp.
     bind_py (lib (chop L qubitOp (1 / 10 ^ 10))) (\<lambda>_.
     return_py \<lparr>freeze_list = freeze_list, remove_list = remove_list,
                energy_shift = energy_shift, qubit_reduction = qubit_reduction,
                num_spin_orbitals = num_spin_orbitals, num_particles = num_particles,
                qubitOp = qubitOp\<rparr>)))))))"

text \<open>Cell 5: the exact eigensolver, as a reference, and two prints.\<close>

definition chemistry_cell5 ::
  "('e, 'o, 'w) library \<Rightarrow> 'o chem_vars \<Rightarrow> 'o reduced \<Rightarrow> ('e, 'w, unit) py" where
  "chemistry_cell5 L vars red =
     bind_py (lib (ExactEigensolver L (qubitOp red) (Some 1))) (\<lambda>exact_eigensolver.
     bind_py (lib (ExactEigensolver_run L exact_eigensolver)) (\<lambda>ret.
     bind_py (subscript ret ''eigvals'') (\<lambda>eigvals.
     bind_py (lib (getitem L eigvals 0)) (\<lambda>eigval.
     bind_py (lib (real_part L eigval)) (\<lambda>re.
     bind_py (print_format L ''The computed energy is: '' ''.12f'' re) (\<lambda>_.
     bind_py (subscript ret ''eigvals'') (\<lambda>eigvals.
     bind_py (lib (getitem L eigvals 0)) (\<lambda>eigval.
     bind_py (lib (real_part L eigval)) (\<lambda>re.
     bind_py (lib (binop L ''+'' re (energy_shift red))) (\<lambda>shifted.
     bind_py (lib (binop L ''+'' shifted (nuclear_repulsion_energy0 vars))) (\<lambda>total.
     print_format L ''The total ground state energy is: '' ''.12f'' total)))))))))))"

text \<open>Cell 7: the simulator backend.\<close>

definition chemistry_cell7 :: "('e, 'o, 'w) library \<Rightarrow> ('e, 'w, 'o) py" where
  "chemistry_cell7 L = lib (get_backend L ''statevector_simulator'')"

text \<open>Cell 8: optimizer, initial state, variational form, the solver and the quantum instance.\<close>

definition chemistry_cell8 ::
  "('e, 'o, 'w) library \<Rightarrow> 'o chem_vars \<Rightarrow> 'o reduced \<Rightarrow> 'o \<Rightarrow> ('e, 'w, 'o \<times> 'o) py" where
  "chemistry_cell8 L vars red backend =
    (let max_eval = 200 in
     bind_py (lib (COBYLA L max_eval)) (\<lambda>cobyla.
     bind_py (lib (num_qubits L (qubitOp red))) (\<lambda>n.
     bind_py (lib (HartreeFock L n (num_spin_orbitals red) (num_particles red)
                (map_type vars) (qubit_reduction red))) (\<lambda>HF_state.
     bind_py (lib (num_qubits L (qubitOp red))) (\<lambda>n.
     bind_py (lib (UCCSD L n 1 (num_spin_orbitals red) (num_particles red) [0] [0, 1]
                HF_state (map_type vars) (qubit_reduction red) 1)) (\<lambda>var_form.
     bind_py (lib (VQE L (qubitOp red) var_form cobyla ''matrix'' None)) (\<lambda>vqe.
     bind_py (lib (QuantumInstance L backend)) (\<lambda>quantum_instance.
     return_py (vqe, quantum_instance)))))))))"

text \<open>Cell 9: the variational solver is run; three prints.\<close>

definition chemistry_cell9 ::
  "('e, 'o, 'w) library \<Rightarrow> 'o chem_vars \<Rightarrow> 'o reduced \<Rightarrow> 'o \<Rightarrow> 'o \<Rightarrow> ('e, 'w, unit) py" where
  "chemistry_cell9 L vars red vqe quantum_instance =
     bind_py (lib (VQE_run L vqe quantum_instance)) (\<lambda>results.
     bind_py (subscript results ''eigvals'') (\<lambda>eigvals.
     bind_py (lib (getitem L eigvals 0)) (\<lambda>eigval.
     bind_py (print_format L ''The computed ground state energy is: '' ''.12f'' eigval) (\<lambda>_.
     bind_py (subscript results ''eigvals'') (\<lambda>eigvals.
     bind_py (lib (getitem L eigvals 0)) (\<lambda>eigval.
     bind_py (lib (binop L ''+'' eigval (energy_shift red))) (\<lambda>shifted.
     bind_py (lib (binop L ''+'' shifted (nuclear_repulsion_energy0 vars))) (\<lambda>total.
     bind_py (print_format L ''The total ground state energy is: '' ''.12f'' total) (\<lambda>_.
     bind_py (subscript results ''opt_params'') (\<lambda>opt_params.
     print_format L ''Parameters: '' [] opt_params))))))))))"

text \<open>The notebook: its code cells in order (cell 6 holds comments only, the last cell is empty).\<close>

definition chemistry_notebook :: "('e, 'o, 'w) library \<Rightarrow> ('e, 'w, unit) py" where
  "chemistry_notebook L =
     bind_py (chemistry_cell1 L) (\<lambda>_.
     bind_py (chemistry_cell2 L) (\<lambda>molecule.
     bind_py (chemistry_cell3 L molecule) (\<lambda>vars.
     bind_py (chemistry_cell4 L molecule vars) (\<lambda>red.
     bind_py (chemistry_cell5 L vars red) (\<lambda>_.
     bind_py (chemistry_cell7 L) (\<lambda>backend.
     bind_py (chemistry_cell8 L vars red backend) (\<lambda>(vqe, quantum_instance).
     chemistry_cell9 L vars red vqe quantum_instance)))))))"

section \<open>What a failing library call does to a run\<close>

text \<open>
  The statement made at one call site of a run. The notebook calls the library with \<open>c\<close>
  when the library's world is \<open>w\<close> and standard output holds \<open>out\<close>. If the library
  raises \<open>e\<close> there and leaves its world as \<open>w'\<close>, then the run is over: its result is
  exactly that exception, the world is \<open>w'\<close>, and standard output holds \<open>out\<close> and nothing
  more. If the library returns \<open>a\<close> and leaves its world as \<open>w'\<close>, the statement \<open>k\<close> of
  the rest of the run holds of \<open>a\<close> and \<open>w'\<close>.
\<close>

definition on_call ::
  "('e, 'w, 'a) libcall \<Rightarrow> 'w \<Rightarrow> string list \<Rightarrow> ('e exn + 'r) \<times> 'w kernel \<Rightarrow> ('a \<Rightarrow> 'w \<Rightarrow> bool) \<Rightarrow> bool" where
  "on_call c w out run k \<longleftrightarrow>
     (\<forall>e w'. c w = (Inl e, w') \<longrightarrow> run = (Inl (LibraryError e), \<lparr>world = w', stdout = out\<rparr>))
   \<and> (\<forall>a w'. c w = (Inr a, w') \<longrightarrow> k a w')"

text \<open>
  The remainder \<open>m\<close> of a script is what is left of the run when the world is \<open>w\<close> and
  standard output holds \<open>out\<close>.
\<close>

definition reached :: "('e exn + 'r) \<times> 'w kernel \<Rightarrow> ('e, 'w, 'r) py \<Rightarrow> 'w \<Rightarrow> string list \<Rightarrow> bool" where
  "reached run m w out \<longleftrightarrow> run = m \<lparr>world = w, stdout = out\<rparr>"

text \<open>
  The same at the level of a cell: if the cell \<open>m\<close>, started in the kernel state \<open>s\<close>,
  ends with an exception, the run ends with that exception in the state the cell left; if
  the cell returns \<open>a\<close> and leaves the state \<open>s'\<close>, the statement \<open>k\<close> of the rest of the
  run holds of \<open>a\<close> and \<open>s'\<close>.
\<close>

definition on_cell ::
  "('e, 'w, 'a) py \<Rightarrow> 'w kernel \<Rightarrow> ('e exn + 'r) \<times> 'w kernel \<Rightarrow> ('a \<Rightarrow> 'w kernel \<Rightarrow> bool) \<Rightarrow> bool" where
  "on_cell m s run k \<longleftrightarrow>
     (\<forall>x s'. m s = (Inl x, s') \<longrightarrow> run = (Inl x, s'))
   \<and> (\<forall>a s'. m s = (Inr a, s') \<longrightarrow> k a s')"

section \<open>A stand-in library for concrete runs\<close>

text \<open>
  Objects are natural numbers, exceptions are strings, and the library's world is a counter
  of the calls made, imports included. Every call of the stand-in returns; a failing
  library is obtained by replacing one entry point. The molecule has the counts the chemistry notebook prints for
  LiH: four electrons and six orbitals.
\<close>

definition returns :: "'a \<Rightarrow> (string, nat, 'a) libcall" where
  "returns a = (\<lambda>w. (Inr a, Suc w))"

definition raises :: "string \<Rightarrow> (string, nat, 'a) libcall" where
  "raises e = (\<lambda>w. (Inl e, Suc w))"

definition LiH :: "nat molecule" where
  "LiH = \<lparr>one_body_integrals = 1, two_body_integrals = 2, nuclear_repulsion_energy = 3,
          hf_energy = 4, num_alpha = 2, num_beta = 2, num_orbitals = 6\<rparr>"

definition stub_library :: "(string, nat, nat) library" where
  "stub_library =
    \<lparr>import_from = (\<lambda>_ _. returns ()),
     getitem = (\<lambda>_ _. returns 0), binop = (\<lambda>_ _ _. returns 0), real_part = (\<lambda>_. returns 0),
     num_qubits = (\<lambda>_. returns 4), str_of = (\<lambda>_. returns ''obj''),
     format_of = (\<lambda>_ _. returns ''obj''), float_of = (\<lambda>_. 0),
     random_seed = (\<lambda>_. returns ()),
     parse_gset_format = (\<lambda>_. returns 0), get_maxcut_qubitops = (\<lambda>_. returns (0, 0)),
     random_graph = (\<lambda>_ _ _. returns 0), sample_most_likely = (\<lambda>_. returns 0),
     get_graph_solution = (\<lambda>_. returns 0),
     ExactEigensolver = (\<lambda>_ _. returns 0),
     ExactEigensolver_run = (\<lambda>_. returns [''eigvals'' \<mapsto> 0, ''eigvecs'' \<mapsto> 0, ''energy'' \<mapsto> 0]),
     L_BFGS_B = returns 0, COBYLA = (\<lambda>_. returns 0), RY = (\<lambda>_ _ _. returns 0),
     VQE = (\<lambda>_ _ _ _ _. returns 0),
     VQE_run = (\<lambda>_ _. returns [''eigvals'' \<mapsto> 0, ''eigvecs'' \<mapsto> 0, ''energy'' \<mapsto> 0,
                                 ''eval_time'' \<mapsto> 0, ''opt_params'' \<mapsto> 0]),
     get_backend = (\<lambda>_. returns 0), QuantumInstance = (\<lambda>_. returns 0),
     ANGSTROM = 0, PySCFDriver = (\<lambda>_ _ _ _ _. returns 0), PySCFDriver_run = (\<lambda>_. returns LiH),
     FermionicOperator = (\<lambda>_ _. returns 0), fermion_mode_freezing = (\<lambda>_ _. returns (0, 0)),
     fermion_mode_elimination = (\<lambda>_ _. returns 0), mapping = (\<lambda>_ _ _. returns 0),
     two_qubit_reduced_operator = (\<lambda>_ _. returns 0), chop = (\<lambda>_ _. returns ()),
     HartreeFock = (\<lambda>_ _ _ _ _. returns 0),
     UCCSD = (\<lambda>_ _ _ _ _ _ _ _ _ _. returns 0)\<rparr>"

section \<open>The run the Max-Cut notebook records\<close>

text \<open>
  The notebook file stores the output of its last run: the graph printed by cell 3 (its
  entries are printed as floats with no fractional part), and the energies, objectives and
  solutions printed by cells 4 and 5.
\<close>

definition recorded_w :: "int list list" where
  "recorded_w = [[0, 8, - 9, 0], [8, 0, 7, 9], [- 9, 7, 0, - 8], [0, 9, - 8, 0]]"

definition recorded_exact_energy :: rat where "recorded_exact_energy = - 205 / 10"
definition recorded_exact_objective :: rat where "recorded_exact_objective = - 24"
definition recorded_exact_solution :: "nat list" where "recorded_exact_solution = [1, 0, 1, 1]"
definition recorded_vqe_energy :: rat where
  "recorded_vqe_energy = - 20499999999992276 / 10 ^ 15"
definition recorded_vqe_solution :: "nat list" where "recorded_vqe_solution = [0, 1, 0, 0]"

text \<open>The two energies the chemistry notebook stores, as printed by cells 5 and 9.\<close>

definition recorded_LiH_exact_energy :: rat where
  "recorded_LiH_exact_energy = - 1077059745735 / 10 ^ 12"

definition recorded_LiH_vqe_energy :: rat where
  "recorded_LiH_vqe_energy = - 1077059737908 / 10 ^ 12"

text \<open>
  The weight of a cut, as the notebook's opening cell defines it: the sum of \<open>w i j\<close>
  over the pairs with \<open>i\<close> in the subset and \<open>j\<close> outside it. The subset is given by
  the labels, one per node.
\<close>

definition cut_weight :: "int list list \<Rightarrow> nat list \<Rightarrow> int" where
  "cut_weight w x =
     (\<Sum>i \<leftarrow> [0..<length w]. \<Sum>j \<leftarrow> [0..<length w].
        if x ! i = 1 \<and> x ! j \<noteq> 1 then w ! i ! j else 0)"

section \<open>Unfolding a concrete run\<close>

text \<open>The equations by which a run with a given library is computed step by step.\<close>

lemmas run_simps = bind_py_def return_py_def raise_py_def lift_py_def lib_def write_stdout_def
  print_str_def subscript_def print_py_def print_format_def boot_def returns_def raises_def

section \<open>Library exceptions end the run unchanged\<close>

lemma on_callI:
  assumes "reached run (bind_py (lib c) f) w out"
    and "\<And>a w'. c w = (Inr a, w') \<Longrightarrow> reached run (f a) w' out \<Longrightarrow> k a w'"
  shows "on_call c w out run k"
  unfolding on_call_def
proof (intro conjI allI impI)
  fix e w' assume "c w = (Inl e, w')"
  with assms(1) show "run = (Inl (LibraryError e), \<lparr>world = w', stdout = out\<rparr>)"
    by (simp add: reached_def bind_py_def lib_def)
next
  fix a w' assume c: "c w = (Inr a, w')"
  with assms(1) have "reached run (f a) w' out"
    by (simp add: reached_def bind_py_def lib_def)
  with c show "k a w'" by (rule assms(2))
qed

lemma on_call_lastI:
  assumes "reached run (lib c) w out"
    and "\<And>a w'. c w = (Inr a, w') \<Longrightarrow> run = (Inr a, \<lparr>world = w', stdout = out\<rparr>) \<Longrightarrow> k a w'"
  shows "on_call c w out run k"
  unfolding on_call_def
proof (intro conjI allI impI)
  fix e w' assume "c w = (Inl e, w')"
  with assms(1) show "run = (Inl (LibraryError e), \<lparr>world = w', stdout = out\<rparr>)"
    by (simp add: reached_def lib_def)
next
  fix a w' assume c: "c w = (Inr a, w')"
  with assms(1) have "run = (Inr a, \<lparr>world = w', stdout = out\<rparr>)"
    by (simp add: reached_def lib_def)
  with c show "k a w'" by (rule assms(2))
qed

lemma let_runI:
  assumes "\<And>run. reached run m w out \<Longrightarrow> P run"
  shows "Let (m \<lparr>world = w, stdout = out\<rparr>) P"
  unfolding Let_def by (rule assms) (simp add: reached_def)

lemma bind_py_assoc: "bind_py (bind_py m f) g = bind_py m (\<lambda>a. bind_py (f a) g)"
  by (auto simp: bind_py_def fun_eq_iff split: prod.splits sum.splits)

lemma bind_py_return: "bind_py (return_py a) f = f a"
  by (simp add: bind_py_def return_py_def)

lemma reached_write_bind: "reached run (bind_py (write_stdout t) f) w out = reached run (f ()) w (out @ [t])"
  by (simp add: reached_def bind_py_def write_stdout_def)

lemma reached_write: "reached run (write_stdout t) w out \<longleftrightarrow> run = (Inr (), \<lparr>world = w, stdout = out @ [t]\<rparr>)"
  by (simp add: reached_def write_stdout_def)

lemma reached_return: "reached run (return_py a) w out \<longleftrightarrow> run = (Inr a, \<lparr>world = w, stdout = out\<rparr>)"
  by (simp add: reached_def return_py_def)

lemma subscript_Some: "d k = Some v \<Longrightarrow> subscript d k = return_py v"
  by (simp add: subscript_def)

lemma lift_py_Inr_return: "lift_py (Inr a) = return_py a"
  by (simp add: lift_py_def return_py_def)

lemmas flow_simps = bind_py_assoc bind_py_return reached_write_bind reached_write reached_return subscript_Some
  lift_py_Inr_return print_py_def print_format_def print_str_def Let_def

text \<open>The digits that the stand-in runs print.\<close>

lemma digit_chars:
  "char_of (52 :: nat) = CHR ''4''" "char_of (49 :: nat) = CHR ''1''" "char_of (50 :: nat) = CHR ''2''"
  by code_simp+

text \<open>
  C9. Every code cell of both notebooks, started in any state of the kernel, is followed
  call by call in the order in which it reaches the library (imports and the operations on
  library objects included). At every call: if the library raises there, the cell ends
  with exactly that exception, the library's world is as the failing call left it, and
  standard output holds what had been written before the call and nothing else. If every
  call returns, the cell returns. Each notebook is followed cell by cell in the same way:
  an exception that ends a cell ends the notebook, with the same exception and in the
  state that cell left. So nothing catches, replaces or reports an exception of the
  library, and nothing is called or printed after it. The statements between the calls
  that can fail without the library (a key missing from a result dictionary, the modulus
  by the number of orbitals) are assumed to succeed where a cell goes past them, and cell
  4 of the chemistry notebook is followed along the branches the notebook takes (parity
  mapping, orbitals to freeze and to remove).
\<close>

theorem library_exception_propagates:
  fixes L :: "('e, 'o, 'w) library"
  shows
  "(\<forall>w out.
    let run = maxcut_cell1 L \<lparr>world = w, stdout = out\<rparr> in
      on_call (import_from L ''numpy'' []) w out run (\<lambda>_ w.
      on_call (import_from L ''qiskit.aqua'' [''Operator'']) w out run (\<lambda>_ w.
      on_call (import_from L ''qiskit.aqua.components.optimizers'' [''L_BFGS_B''])
          w out run (\<lambda>_ w.
      on_call (import_from L ''qiskit.aqua.components.variational_forms'' [''RY''])
          w out run (\<lambda>_ w.
      on_call (import_from L ''qiskit.aqua.algorithms'' [''VQE'']) w out run (\<lambda>_ w.
      on_call (import_from L ''qiskit.aqua.algorithms'' [''ExactEigensolver''])
          w out run (\<lambda>_ w.
      on_call (import_from L ''qiskit.aqua.translators.ising'' [''maxcut''])
          w out run (\<lambda>_ w.
      on_call (import_from L ''qiskit'' [''Aer'']) w out run (\<lambda>_ w.
      run = (Inr (), \<lparr>world = w, stdout = out\<rparr>))))))))))
 \<and> (\<forall>w out.
    let run = maxcut_cell2 L \<lparr>world = w, stdout = out\<rparr> in
      on_call (parse_gset_format L ''sample.maxcut'') w out run (\<lambda>g w.
      on_call (get_maxcut_qubitops L g) w out run (\<lambda>(qubitOp, offset) w.
      run = (Inr (g, qubitOp, offset), \<lparr>world = w, stdout = out\<rparr>))))
 \<and> (\<forall>vars w out.
    let run = maxcut_cell3 L vars \<lparr>world = w, stdout = out\<rparr> in
      on_call (random_seed L 8123179) w out run (\<lambda>_ w.
      on_call (random_graph L 4 (1 / 2) 10) w out run (\<lambda>g w.
      on_call (get_maxcut_qubitops L g) w out run (\<lambda>(qubitOp, offset) w.
      on_call (str_of L g) w out run (\<lambda>s w.
      run = (Inr (g, qubitOp, offset), \<lparr>world = w, stdout = (out @ [s, nl])\<rparr>))))))
 \<and> (\<forall>qubitOp offset w out.
    let run = maxcut_cell4 L qubitOp offset \<lparr>world = w, stdout = out\<rparr> in
      on_call (ExactEigensolver L qubitOp None) w out run (\<lambda>ee w.
      on_call (ExactEigensolver_run L ee) w out run (\<lambda>result w.
      \<forall>eigvecs. result ''eigvecs'' = Some eigvecs \<longrightarrow>
      on_call (getitem L eigvecs 0) w out run (\<lambda>eigvec w.
      on_call (sample_most_likely L eigvec) w out run (\<lambda>x w.
      \<forall>energy. result ''energy'' = Some energy \<longrightarrow>
      on_call (str_of L energy) w (out @ [''energy:'', '' '']) run (\<lambda>s1 w.
      on_call (binop L ''+'' energy offset)
          w (out @ [''energy:'', '' '', s1, nl]) run (\<lambda>objective w.
      on_call (str_of L objective)
          w (out @ [''energy:'', '' '', s1, nl, ''maxcut objective:'', '' '']) run (\<lambda>s2 w.
      on_call (get_graph_solution L x)
          w (out @ [''energy:'', '' '', s1, nl, ''maxcut objective:'', '' '', s2, nl])
          run (\<lambda>solution w.
      on_call (str_of L solution)
          w (out @ [''energy:'', '' '', s1, nl, ''maxcut objective:'', '' '', s2, nl,
                     ''solution:'', '' ''])
          run (\<lambda>s3 w.
      run = (Inr (),
             \<lparr>world = w,
              stdout = (out @ [''energy:'', '' '', s1, nl, ''maxcut objective:'',
                                '' '', s2, nl, ''solution:'', '' '', s3, nl])\<rparr>)))))))))))
 \<and> (\<forall>qubitOp offset w out.
    let run = maxcut_cell5 L qubitOp offset \<lparr>world = w, stdout = out\<rparr> in
      on_call (L_BFGS_B L) w out run (\<lambda>l_bfgs_b w.
      on_call (num_qubits L qubitOp) w out run (\<lambda>n w.
      on_call (RY L n 5 ''linear'') w out run (\<lambda>ry w.
      on_call (VQE L qubitOp ry l_bfgs_b ''grouped_paulis'' (Some True))
          w out run (\<lambda>vqe w.
      on_call (get_backend L ''statevector_simulator'') w out run (\<lambda>backend w.
      on_call (VQE_run L vqe backend) w out run (\<lambda>result w.
      \<forall>eigvecs. result ''eigvecs'' = Some eigvecs \<longrightarrow>
      on_call (getitem L eigvecs 0) w out run (\<lambda>eigvec w.
      on_call (sample_most_likely L eigvec) w out run (\<lambda>x w.
      \<forall>energy. result ''energy'' = Some energy \<longrightarrow>
      on_call (str_of L energy) w (out @ [''energy:'', '' '']) run (\<lambda>s1 w.
      \<forall>eval_time. result ''eval_time'' = Some eval_time \<longrightarrow>
      on_call (str_of L eval_time)
          w (out @ [''energy:'', '' '', s1, nl, ''time:'', '' '']) run (\<lambda>s2 w.
      on_call (binop L ''+'' energy offset)
          w (out @ [''energy:'', '' '', s1, nl, ''time:'', '' '', s2, nl])
          run (\<lambda>objective w.
      on_call (str_of L objective)
          w (out @ [''energy:'', '' '', s1, nl, ''time:'', '' '', s2, nl,
                     ''maxcut objective:'', '' ''])
          run (\<lambda>s3 w.
      on_call (get_graph_solution L x)
          w (out @ [''energy:'', '' '', s1, nl, ''time:'', '' '', s2, nl,
                     ''maxcut objective:'', '' '', s3, nl])
          run (\<lambda>solution w.
      on_call (str_of L solution)
          w (out @ [''energy:'', '' '', s1, nl, ''time:'', '' '', s2, nl,
                     ''maxcut objective:'', '' '', s3, nl, ''solution:'', '' ''])
          run (\<lambda>s4 w.
      run = (Inr (),
             \<lparr>world = w,
              stdout = (out @ [''energy:'', '' '', s1, nl, ''time:'', '' '', s2, nl,
                                ''maxcut objective:'', '' '', s3, nl, ''solution:'',
                                '' '', s4, nl])\<rparr>))))))))))))))))
 \<and> (\<forall>s.
    let run = maxcut_notebook L s in
      on_cell (maxcut_cell1 L) s run (\<lambda>_ s.
      on_cell (maxcut_cell2 L) s run (\<lambda>vars s.
      on_cell (maxcut_cell3 L vars) s run (\<lambda>(g, qubitOp, offset) s.
      on_cell (maxcut_cell4 L qubitOp offset) s run (\<lambda>_ s.
      run = maxcut_cell5 L qubitOp offset s)))))
 \<and> (\<forall>w out.
    let run = chemistry_cell1 L \<lparr>world = w, stdout = out\<rparr> in
      on_call (import_from L ''numpy'' []) w out run (\<lambda>_ w.
      on_call (import_from L ''qiskit'' [''Aer'']) w out run (\<lambda>_ w.
      on_call (import_from L ''qiskit.aqua'' [''Operator'', ''QuantumInstance''])
          w out run (\<lambda>_ w.
      on_call (import_from L ''qiskit.aqua.algorithms'' [''VQE'', ''ExactEigensolver''])
          w out run (\<lambda>_ w.
      on_call (import_from L ''qiskit.aqua.components.optimizers'' [''COBYLA''])
          w out run (\<lambda>_ w.
      on_call (import_from L ''qiskit.chemistry'' [''FermionicOperator''])
          w out run (\<lambda>_ w.
      on_call (import_from L ''qiskit.chemistry.drivers'' [''PySCFDriver'', ''UnitsType''])
          w out run (\<lambda>_ w.
      on_call (import_from L
                 ''qiskit.chemistry.aqua_extensions.components.variational_forms'' [''UCCSD''])
          w out run (\<lambda>_ w.
      on_call (import_from L
                 ''qiskit.chemistry.aqua_extensions.components.initial_states'' [''HartreeFock''])
          w out run (\<lambda>_ w.
      run = (Inr (), \<lparr>world = w, stdout = out\<rparr>)))))))))))
 \<and> (\<forall>w out.
    let run = chemistry_cell2 L \<lparr>world = w, stdout = out\<rparr> in
      on_call (PySCFDriver L ''Li .0 .0 .0; H .0 .0 1.6'' (ANGSTROM L) 0 0 ''sto3g'')
          w out run (\<lambda>driver w.
      on_call (PySCFDriver_run L driver) w out run (\<lambda>molecule w.
      run = (Inr molecule, \<lparr>world = w, stdout = out\<rparr>))))
 \<and> (\<forall>molecule w out.
    let run = chemistry_cell3 L molecule \<lparr>world = w, stdout = out\<rparr> in
      on_call (binop L ''-'' (hf_energy molecule) (nuclear_repulsion_energy molecule))
          w out run (\<lambda>hf w.
      on_call (format_of L hf []) w out run (\<lambda>s w.
      run = (Inr 
           \<lparr>freeze_list0 = [0], remove_list0 = [- 3, - 2], map_type = ''parity'',
            h1 = one_body_integrals molecule, h2 = two_body_integrals molecule,
            nuclear_repulsion_energy0 = nuclear_repulsion_energy molecule,
            num_particles0 = num_alpha molecule + num_beta molecule,
            num_spin_orbitals0 = num_orbitals molecule * 2\<rparr>,
             \<lparr>world = w,
              stdout = (out @ [''HF energy: '' @ s, nl,
                                ''# of electrons: '' @ str_int (num_alpha molecule + num_beta molecule),
                                nl,
                                ''# of spin orbitals: '' @ str_int (num_orbitals molecule * 2),
                                nl])\<rparr>))))
 \<and> (\<forall>molecule vars w out.
    let run = chemistry_cell4 L molecule vars \<lparr>world = w, stdout = out\<rparr> in
      map_type vars = ''parity'' \<longrightarrow>
      (\<forall>fl rl. (prepare_idx (num_orbitals molecule) (freeze_list0 vars) (remove_list0 vars)
                  :: 'e exn + _) = Inr (fl, rl) \<longrightarrow> fl \<noteq> [] \<longrightarrow> rl \<noteq> [] \<longrightarrow>
      on_call (FermionicOperator L (h1 vars) (h2 vars)) w out run (\<lambda>ferOp w.
      on_call (fermion_mode_freezing L ferOp fl) w out run (\<lambda>(ferOp, energy_shift) w.
      on_call (fermion_mode_elimination L ferOp rl) w out run (\<lambda>ferOp w.
      on_call (mapping L ferOp ''parity'' (1 / 10 ^ 8)) w out run (\<lambda>qubitOp w.
      on_call (two_qubit_reduced_operator L qubitOp (num_particles0 vars - int (length fl)))
          w out run (\<lambda>qubitOp w.
      on_call (chop L qubitOp (1 / 10 ^ 10)) w out run (\<lambda>_ w.
      run = (Inr 
           \<lparr>freeze_list = fl, remove_list = rl, energy_shift = energy_shift,
            qubit_reduction = True,
            num_spin_orbitals = num_spin_orbitals0 vars - int (length fl) - int (length rl),
            num_particles = num_particles0 vars - int (length fl), qubitOp = qubitOp\<rparr>,
             \<lparr>world = w,
              stdout = out\<rparr>)))))))))
 \<and> (\<forall>vars red w out.
    let run = chemistry_cell5 L vars red \<lparr>world = w, stdout = out\<rparr> in
      on_call (ExactEigensolver L (qubitOp red) (Some 1))
          w out run (\<lambda>exact_eigensolver w.
      on_call (ExactEigensolver_run L exact_eigensolver) w out run (\<lambda>ret w.
      \<forall>eigvals. ret ''eigvals'' = Some eigvals \<longrightarrow>
      on_call (getitem L eigvals 0) w out run (\<lambda>eigval w.
      on_call (real_part L eigval) w out run (\<lambda>re w.
      on_call (format_of L re ''.12f'') w out run (\<lambda>s1 w.
      on_call (getitem L eigvals 0)
          w (out @ [''The computed energy is: '' @ s1, nl]) run (\<lambda>eigval w.
      on_call (real_part L eigval)
          w (out @ [''The computed energy is: '' @ s1, nl]) run (\<lambda>re w.
      on_call (binop L ''+'' re (energy_shift red))
          w (out @ [''The computed energy is: '' @ s1, nl]) run (\<lambda>shifted w.
      on_call (binop L ''+'' shifted (nuclear_repulsion_energy0 vars))
          w (out @ [''The computed energy is: '' @ s1, nl]) run (\<lambda>total w.
      on_call (format_of L total ''.12f'')
          w (out @ [''The computed energy is: '' @ s1, nl]) run (\<lambda>s2 w.
      run = (Inr (),
             \<lparr>world = w,
              stdout = (out @ [''The computed energy is: '' @ s1, nl,
                                ''The total ground state energy is: '' @ s2, nl])\<rparr>))))))))))))
 \<and> (\<forall>w out.
    let run = chemistry_cell7 L \<lparr>world = w, stdout = out\<rparr> in
      on_call (get_backend L ''statevector_simulator'') w out run (\<lambda>backend w.
      run = (Inr backend, \<lparr>world = w, stdout = out\<rparr>)))
 \<and> (\<forall>vars red backend w out.
    let run = chemistry_cell8 L vars red backend \<lparr>world = w, stdout = out\<rparr> in
      on_call (COBYLA L 200) w out run (\<lambda>cobyla w.
      on_call (num_qubits L (qubitOp red)) w out run (\<lambda>n w.
      on_call (HartreeFock L n (num_spin_orbitals red) (num_particles red) (map_type vars)
                 (qubit_reduction red))
          w out run (\<lambda>HF_state w.
      on_call (num_qubits L (qubitOp red)) w out run (\<lambda>n w.
      on_call (UCCSD L n 1 (num_spin_orbitals red) (num_particles red) [0] [0, 1] HF_state
                 (map_type vars) (qubit_reduction red) 1)
          w out run (\<lambda>var_form w.
      on_call (VQE L (qubitOp red) var_form cobyla ''matrix'' None) w out run (\<lambda>vqe w.
      on_call (QuantumInstance L backend) w out run (\<lambda>quantum_instance w.
      run = (Inr (vqe, quantum_instance), \<lparr>world = w, stdout = out\<rparr>)))))))))
 \<and> (\<forall>vars red vqe quantum_instance w out.
    let run = chemistry_cell9 L vars red vqe quantum_instance \<lparr>world = w, stdout = out\<rparr> in
      on_call (VQE_run L vqe quantum_instance) w out run (\<lambda>results w.
      \<forall>eigvals. results ''eigvals'' = Some eigvals \<longrightarrow>
      on_call (getitem L eigvals 0) w out run (\<lambda>eigval w.
      on_call (format_of L eigval ''.12f'') w out run (\<lambda>s1 w.
      on_call (getitem L eigvals 0)
          w (out @ [''The computed ground state energy is: '' @ s1, nl]) run (\<lambda>eigval w.
      on_call (binop L ''+'' eigval (energy_shift red))
          w (out @ [''The computed ground state energy is: '' @ s1, nl]) run (\<lambda>shifted w.
      on_call (binop L ''+'' shifted (nuclear_repulsion_energy0 vars))
          w (out @ [''The computed ground state energy is: '' @ s1, nl]) run (\<lambda>total w.
      on_call (format_of L total ''.12f'')
          w (out @ [''The computed ground state energy is: '' @ s1, nl]) run (\<lambda>s2 w.
      \<forall>opt_params. results ''opt_params'' = Some opt_params \<longrightarrow>
      on_call (format_of L opt_params [])
          w (out @ [''The computed ground state energy is: '' @ s1, nl,
                     ''The total ground state energy is: '' @ s2, nl])
          run (\<lambda>s3 w.
      run = (Inr (),
             \<lparr>world = w,
              stdout = (out @ [''The computed ground state energy is: '' @ s1, nl,
                                ''The total ground state energy is: '' @ s2, nl,
                                ''Parameters: '' @ s3, nl])\<rparr>))))))))))
 \<and> (\<forall>s.
    let run = chemistry_notebook L s in
      on_cell (chemistry_cell1 L) s run (\<lambda>_ s.
      on_cell (chemistry_cell2 L) s run (\<lambda>molecule s.
      on_cell (chemistry_cell3 L molecule) s run (\<lambda>vars s.
      on_cell (chemistry_cell4 L molecule vars) s run (\<lambda>red s.
      on_cell (chemistry_cell5 L vars red) s run (\<lambda>_ s.
      on_cell (chemistry_cell7 L) s run (\<lambda>backend s.
      on_cell (chemistry_cell8 L vars red backend) s run (\<lambda>(vqe, quantum_instance) s.
      run = chemistry_cell9 L vars red vqe quantum_instance s))))))))"
  apply (intro conjI allI)
  subgoal for w out
    apply (rule let_runI [where m = "maxcut_cell1 L"])
    apply (simp only: maxcut_cell1_def)
    apply (simp add: flow_simps)?
    apply ((clarsimp simp: flow_simps)?,
        ((erule on_callI | erule on_call_lastI), (clarsimp simp: flow_simps)?)+)
    done
  subgoal for w out
    apply (rule let_runI [where m = "maxcut_cell2 L"])
    apply (simp only: maxcut_cell2_def)
    apply (simp add: flow_simps)?
    apply ((clarsimp simp: flow_simps)?,
        ((erule on_callI | erule on_call_lastI), (clarsimp simp: flow_simps)?)+)
    done
  subgoal for vars w out
    apply (rule let_runI [where m = "maxcut_cell3 L vars"])
    apply (simp only: maxcut_cell3_def)
    apply (simp add: flow_simps)?
    apply ((clarsimp simp: flow_simps)?,
        ((erule on_callI | erule on_call_lastI), (clarsimp simp: flow_simps)?)+)
    done
  subgoal for qubitOp offset w out
    apply (rule let_runI [where m = "maxcut_cell4 L qubitOp offset"])
    apply (simp only: maxcut_cell4_def)
    apply (simp add: flow_simps)?
    apply ((clarsimp simp: flow_simps)?,
        ((erule on_callI | erule on_call_lastI), (clarsimp simp: flow_simps)?)+)
    done
  subgoal for qubitOp offset w out
    apply (rule let_runI [where m = "maxcut_cell5 L qubitOp offset"])
    apply (simp only: maxcut_cell5_def)
    apply (simp add: flow_simps)?
    apply ((clarsimp simp: flow_simps)?,
        ((erule on_callI | erule on_call_lastI), (clarsimp simp: flow_simps)?)+)
    done
  subgoal for s
    by (simp add: Let_def on_cell_def maxcut_notebook_def bind_py_def)
  subgoal for w out
    apply (rule let_runI [where m = "chemistry_cell1 L"])
    apply (simp only: chemistry_cell1_def)
    apply (simp add: flow_simps)?
    apply ((clarsimp simp: flow_simps)?,
        ((erule on_callI | erule on_call_lastI), (clarsimp simp: flow_simps)?)+)
    done
  subgoal for w out
    apply (rule let_runI [where m = "chemistry_cell2 L"])
    apply (simp only: chemistry_cell2_def)
    apply (simp add: flow_simps)?
    apply ((clarsimp simp: flow_simps)?,
        ((erule on_callI | erule on_call_lastI), (clarsimp simp: flow_simps)?)+)
    done
  subgoal for molecule w out
    apply (rule let_runI [where m = "chemistry_cell3 L molecule"])
    apply (simp only: chemistry_cell3_def)
    apply (simp add: flow_simps)?
    apply ((clarsimp simp: flow_simps)?,
        ((erule on_callI | erule on_call_lastI), (clarsimp simp: flow_simps)?)+)
    done
  subgoal for molecule vars w out
    apply (rule let_runI [where m = "chemistry_cell4 L molecule vars"])
    apply (simp only: chemistry_cell4_def)
    apply (simp add: flow_simps)?
    apply ((clarsimp simp: flow_simps)?,
        ((erule on_callI | erule on_call_lastI), (clarsimp simp: flow_simps)?)+)
    done
  subgoal for vars red w out
    apply (rule let_runI [where m = "chemistry_cell5 L vars red"])
    apply (simp only: chemistry_cell5_def)
    apply (simp add: flow_simps)?
    apply ((clarsimp simp: flow_simps)?,
        ((erule on_callI | erule on_call_lastI), (clarsimp simp: flow_simps)?)+)
    done
  subgoal for w out
    apply (rule let_runI [where m = "chemistry_cell7 L"])
    apply (simp only: chemistry_cell7_def)
    apply (simp add: flow_simps)?
    apply ((clarsimp simp: flow_simps)?,
        ((erule on_callI | erule on_call_lastI), (clarsimp simp: flow_simps)?)+)
    done
  subgoal for vars red backend w out
    apply (rule let_runI [where m = "chemistry_cell8 L vars red backend"])
    apply (simp only: chemistry_cell8_def)
    apply (simp add: flow_simps)?
    apply ((clarsimp simp: flow_simps)?,
        ((erule on_callI | erule on_call_lastI), (clarsimp simp: flow_simps)?)+)
    done
  subgoal for vars red vqe quantum_instance w out
    apply (rule let_runI [where m = "chemistry_cell9 L vars red vqe quantum_instance"])
    apply (simp only: chemistry_cell9_def)
    apply (simp add: flow_simps)?
    apply ((clarsimp simp: flow_simps)?,
        ((erule on_callI | erule on_call_lastI), (clarsimp simp: flow_simps)?)+)
    done
  subgoal for s
    by (simp add: Let_def on_cell_def chemistry_notebook_def bind_py_def)
  done

text \<open>
  Two runs with the stand-in library: the Max-Cut notebook when the variational solver
  raises (the 29th call), and the chemistry notebook when the orbital elimination raises
  (the 16th call). Each ends with the library's exception, and standard output holds the
  lines printed before it.
\<close>

text \<open>
  Two runs with the stand-in library: the Max-Cut notebook when the variational solver
  raises (the 29th call), and the chemistry notebook when the orbital elimination raises
  (the 16th call). Each ends with the library's exception, and standard output holds what
  was printed before it.
\<close>

theorem library_exception_propagates_witness:
  "maxcut_notebook (stub_library\<lparr>VQE_run := (\<lambda>_ _. raises ''AquaError'')\<rparr>) (boot 0) =
     (Inl (LibraryError ''AquaError''),
      \<lparr>world = 29,
       stdout = [''obj'', nl, ''energy:'', '' '', ''obj'', nl,
                 ''maxcut objective:'', '' '', ''obj'', nl, ''solution:'', '' '', ''obj'', nl]\<rparr>)
 \<and> chemistry_notebook
       (stub_library\<lparr>fermion_mode_elimination := (\<lambda>_ _. raises ''QiskitChemistryError'')\<rparr>)
       (boot 0) =
     (Inl (LibraryError ''QiskitChemistryError''),
      \<lparr>world = 16,
       stdout = [''HF energy: obj'', nl, ''# of electrons: 4'', nl,
                 ''# of spin orbitals: 12'', nl]\<rparr>)"
  (is "?maxcut \<and> ?chemistry")
proof (rule conjI)
  let ?L = "stub_library\<lparr>VQE_run := (\<lambda>_ _. raises ''AquaError'')\<rparr>"
  let ?out = "[''obj'', nl, ''energy:'', '' '', ''obj'', nl,
               ''maxcut objective:'', '' '', ''obj'', nl, ''solution:'', '' '', ''obj'', nl]"
  note T = library_exception_propagates [of ?L]
  have c1: "maxcut_cell1 ?L (boot 0) = (Inr (), \<lparr>world = 8, stdout = []\<rparr>)"
    by (simp add: maxcut_cell1_def run_simps stub_library_def)
  have c2: "maxcut_cell2 ?L \<lparr>world = 8, stdout = []\<rparr> = (Inr (0, 0, 0), \<lparr>world = 10, stdout = []\<rparr>)"
    by (simp add: maxcut_cell2_def run_simps stub_library_def)
  have c3: "maxcut_cell3 ?L (0, 0, 0) \<lparr>world = 10, stdout = []\<rparr> =
      (Inr (0, 0, 0), \<lparr>world = 14, stdout = [''obj'', nl]\<rparr>)"
    by (simp add: maxcut_cell3_def run_simps stub_library_def)
  have c4: "maxcut_cell4 ?L 0 0 \<lparr>world = 14, stdout = [''obj'', nl]\<rparr> =
      (Inr (), \<lparr>world = 23, stdout = ?out\<rparr>)"
    by (simp add: maxcut_cell4_def run_simps stub_library_def)
  have c5: "maxcut_cell5 ?L 0 0 \<lparr>world = 23, stdout = ?out\<rparr> =
      (Inl (LibraryError ''AquaError''), \<lparr>world = 29, stdout = ?out\<rparr>)"
    using T [THEN conjunct2, THEN conjunct2, THEN conjunct2, THEN conjunct2, THEN conjunct1]
    by (simp add: on_call_def Let_def stub_library_def returns_def raises_def)
  from spec [of _ "boot 0", OF T [THEN conjunct2, THEN conjunct2, THEN conjunct2, THEN conjunct2, THEN conjunct2, THEN conjunct1]] c1 c2 c3 c4 c5
  show ?maxcut
    by (simp add: on_cell_def Let_def)
next
  let ?L = "stub_library\<lparr>fermion_mode_elimination := (\<lambda>_ _. raises ''QiskitChemistryError'')\<rparr>"
  let ?vars = "\<lparr>freeze_list0 = [0], remove_list0 = [- 3, - 2], map_type = ''parity'',
                h1 = 1, h2 = 2, nuclear_repulsion_energy0 = 3, num_particles0 = 4,
                num_spin_orbitals0 = 12\<rparr> :: nat chem_vars"
  let ?out = "[''HF energy: obj'', nl, ''# of electrons: 4'', nl, ''# of spin orbitals: 12'', nl]"
  note T = library_exception_propagates [of ?L]
  have c1: "chemistry_cell1 ?L (boot 0) = (Inr (), \<lparr>world = 9, stdout = []\<rparr>)"
    by (simp add: chemistry_cell1_def run_simps stub_library_def)
  have c2: "chemistry_cell2 ?L \<lparr>world = 9, stdout = []\<rparr> = (Inr LiH, \<lparr>world = 11, stdout = []\<rparr>)"
    by (simp add: chemistry_cell2_def run_simps stub_library_def)
  have c3: "chemistry_cell3 ?L LiH \<lparr>world = 11, stdout = []\<rparr> =
      (Inr ?vars, \<lparr>world = 13, stdout = ?out\<rparr>)"
    by (simp add: chemistry_cell3_def run_simps stub_library_def LiH_def str_int_def
        digits.simps digit_chars)
  have c4: "chemistry_cell4 ?L LiH ?vars \<lparr>world = 13, stdout = ?out\<rparr> =
      (Inl (LibraryError ''QiskitChemistryError''), \<lparr>world = 16, stdout = ?out\<rparr>)"
    using spec [of _ ?out, OF spec [of _ 13, OF spec [of _ ?vars, OF spec [of _ LiH,
      OF T [THEN conjunct2, THEN conjunct2, THEN conjunct2, THEN conjunct2, THEN conjunct2, THEN conjunct2, THEN conjunct2, THEN conjunct2, THEN conjunct2, THEN conjunct1]]]]]
    by (simp add: on_call_def Let_def stub_library_def returns_def raises_def LiH_def
        prepare_idx_def py_mod_def)
  from spec [of _ "boot 0", OF T [THEN conjunct2, THEN conjunct2, THEN conjunct2, THEN conjunct2, THEN conjunct2, THEN conjunct2, THEN conjunct2, THEN conjunct2, THEN conjunct2, THEN conjunct2, THEN conjunct2, THEN conjunct2, THEN conjunct2, THEN conjunct2]] c1 c2 c3 c4
  show ?chemistry
    by (simp add: on_cell_def Let_def)
qed

section \<open>The index arithmetic of the orbital reduction\<close>

lemma bind_py_Inr:
  "bind_py m f s = (Inr b, s'') \<longleftrightarrow> (\<exists>a s'. m s = (Inr a, s') \<and> f a s' = (Inr b, s''))"
  by (auto simp: bind_py_def split: prod.splits sum.splits)

lemma return_py_Inr: "return_py a s = (Inr b, s') \<longleftrightarrow> a = b \<and> s = s'"
  by (auto simp: return_py_def)

lemma lift_py_Inr: "lift_py r s = (Inr b, s') \<longleftrightarrow> r = Inr b \<and> s = s'"
  by (auto simp: lift_py_def)

lemma chemistry_cell3_vars:
  assumes "chemistry_cell3 L molecule s = (Inr vars, s')"
  shows "vars = \<lparr>freeze_list0 = [0], remove_list0 = [- 3, - 2], map_type = ''parity'',
                 h1 = one_body_integrals molecule, h2 = two_body_integrals molecule,
                 nuclear_repulsion_energy0 = nuclear_repulsion_energy molecule,
                 num_particles0 = num_alpha molecule + num_beta molecule,
                 num_spin_orbitals0 = num_orbitals molecule * 2\<rparr>"
  using assms by (auto simp: chemistry_cell3_def Let_def bind_py_Inr return_py_Inr)

lemma bind_py_InrE:
  assumes "bind_py m f s = (Inr b, s'')"
  obtains a s' where "m s = (Inr a, s')" and "f a s' = (Inr b, s'')"
  using assms by (auto simp: bind_py_Inr)

lemma chemistry_cell4_counters:
  fixes L :: "('e, 'o, 'w) library"
  assumes "chemistry_cell4 L molecule vars s = (Inr red, s')"
  shows "(prepare_idx (num_orbitals molecule) (freeze_list0 vars) (remove_list0 vars) :: 'e exn + _)
           = Inr (freeze_list red, remove_list red)
       \<and> num_spin_orbitals red
           = num_spin_orbitals0 vars - int (length (freeze_list red)) - int (length (remove_list red))
       \<and> num_particles red = num_particles0 vars - int (length (freeze_list red))"
  using assms unfolding chemistry_cell4_def Let_def
  apply -
  apply (erule bind_py_InrE)
  apply (clarsimp simp: lift_py_Inr)
  apply (elim bind_py_InrE)
  apply (clarsimp simp: return_py_Inr)
  apply (elim bind_py_InrE)
  apply (clarsimp simp: return_py_Inr)
  apply (elim bind_py_InrE)
  apply (clarsimp simp: return_py_Inr)
  apply (auto simp: bind_py_Inr return_py_Inr split: if_splits)
  done

lemma prepare_idx_LiH: "prepare_idx 6 [0] [- 3, - 2] = Inr ([0, 6], [2, 3, 7, 8])"
  by (simp add: prepare_idx_def py_mod_def)

text \<open>
  C10. For a molecule with six orbitals and four electrons, cell 3 sets the counters to
  12 spin orbitals and 4 particles. The index transformation of cell 4 turns
  \<open>freeze_list = [0]\<close> into \<open>[0, 6]\<close> and \<open>remove_list = [-3, -2]\<close> into
  \<open>[2, 3, 7, 8]\<close>, and whenever cell 4 returns, these are the lists it holds and the
  counters have been lowered to 6 spin orbitals and 2 particles.
\<close>

theorem orbital_reduction_LiH:
  fixes L :: "('e, 'o, 'w) library"
  assumes "num_orbitals molecule = 6" and "num_alpha molecule + num_beta molecule = 4"
    and c3: "chemistry_cell3 L molecule s = (Inr vars, s')"
    and c4: "chemistry_cell4 L molecule vars s' = (Inr red, s'')"
  shows "freeze_list0 vars = [0] \<and> remove_list0 vars = [- 3, - 2]
       \<and> num_spin_orbitals0 vars = 12 \<and> num_particles0 vars = 4
       \<and> (prepare_idx (num_orbitals molecule) (freeze_list0 vars) (remove_list0 vars)
            :: 'e exn + _) = Inr ([0, 6], [2, 3, 7, 8])
       \<and> freeze_list red = [0, 6] \<and> remove_list red = [2, 3, 7, 8]
       \<and> num_spin_orbitals red = 6 \<and> num_particles red = 2"
proof -
  note v = chemistry_cell3_vars [OF c3]
  from v assms(1,2) have v0: "freeze_list0 vars = [0]" "remove_list0 vars = [- 3, - 2]"
    "num_spin_orbitals0 vars = 12" "num_particles0 vars = 4"
    by simp_all
  from chemistry_cell4_counters [OF c4] assms(1) v0
  have "Inr (freeze_list red, remove_list red) = (Inr ([0, 6], [2, 3, 7, 8]) :: 'e exn + _)"
    and n: "num_spin_orbitals red = 12 - int (length (freeze_list red)) - int (length (remove_list red))"
       "num_particles red = 4 - int (length (freeze_list red))"
    by (simp_all add: prepare_idx_LiH)
  then have l: "freeze_list red = [0, 6]" "remove_list red = [2, 3, 7, 8]" by simp_all
  with n v0 assms(1) show ?thesis by (simp add: prepare_idx_LiH)
qed

theorem orbital_reduction_LiH_witness:
  "num_orbitals LiH = 6 \<and> num_alpha LiH + num_beta LiH = 4 \<and>
   (\<exists>vars s' red s''.
      chemistry_cell3 stub_library LiH (boot 0) = (Inr vars, s') \<and>
      chemistry_cell4 stub_library LiH vars s' = (Inr red, s'') \<and>
      (prepare_idx (num_orbitals LiH) (freeze_list0 vars) (remove_list0 vars) :: string exn + _)
        = Inr ([0, 6], [2, 3, 7, 8]) \<and>
      freeze_list red = [0, 6] \<and> remove_list red = [2, 3, 7, 8] \<and>
      num_spin_orbitals0 vars = 12 \<and> num_particles0 vars = 4 \<and>
      num_spin_orbitals red = 6 \<and> num_particles red = 2)"
proof -
  have m: "num_orbitals LiH = 6" "num_alpha LiH + num_beta LiH = 4"
    by (simp_all add: LiH_def)
  obtain vars s' where c3: "chemistry_cell3 stub_library LiH (boot 0) = (Inr vars, s')"
    by (simp add: chemistry_cell3_def stub_library_def LiH_def run_simps)
  from chemistry_cell3_vars [OF c3] have v: "freeze_list0 vars = [0]"
    "remove_list0 vars = [- 3, - 2]" "map_type vars = ''parity''"
    by simp_all
  obtain red s'' where c4: "chemistry_cell4 stub_library LiH vars s' = (Inr red, s'')"
    by (simp add: chemistry_cell4_def stub_library_def LiH_def run_simps v
        prepare_idx_def py_mod_def)
  from orbital_reduction_LiH [OF m c3 c4] m c3 c4 show ?thesis by blast
qed

section \<open>Facts about the recorded run\<close>

text \<open>
  The recorded graph is a four by four matrix, equal to its transpose, with a zero diagonal.
\<close>

lemma recorded_w_shape:
  "length recorded_w = 4 \<and> list_all (\<lambda>row. length row = 4) recorded_w
   \<and> transpose recorded_w = recorded_w
   \<and> map (\<lambda>i. recorded_w ! i ! i) [0..<4] = [0, 0, 0, 0]"
  by code_simp

text \<open>
  No labelling of the four nodes cuts more than 24 in the recorded graph, both recorded
  solutions cut exactly 24, and the recorded objective is the negative of that.
\<close>

lemma recorded_max_cut:
  "list_all (\<lambda>x. cut_weight recorded_w x \<le> 24) (List.n_lists 4 [0, 1])
   \<and> cut_weight recorded_w recorded_exact_solution = 24
   \<and> cut_weight recorded_w recorded_vqe_solution = 24
   \<and> recorded_exact_objective = - 24"
  by code_simp

text \<open>The two energies recorded for the graph differ by less than \<open>1e-10\<close>.\<close>

lemma recorded_solvers_agree:
  "\<bar>recorded_exact_energy - recorded_vqe_energy\<bar> < 1 / 10 ^ 10"
  by (simp add: recorded_exact_energy_def recorded_vqe_energy_def)

text \<open>
  The two energies recorded for LiH differ by less than \<open>1e-8\<close>, and by more than
  \<open>1e-9\<close>.
\<close>

lemma recorded_LiH_solvers_agree:
  "\<bar>recorded_LiH_exact_energy - recorded_LiH_vqe_energy\<bar> < 1 / 10 ^ 8
   \<and> \<not> \<bar>recorded_LiH_exact_energy - recorded_LiH_vqe_energy\<bar> < 1 / 10 ^ 9"
  by (simp add: recorded_LiH_exact_energy_def recorded_LiH_vqe_energy_def)

end
